theory Spec2Isabelle
  imports Main
begin

section \<open>Data model\<close>

text \<open>
  The handlers of \<^verbatim>\<open>server/app/routers/collections.py\<close> work on three tables through an
  ORM session. The table declarations (\<^verbatim>\<open>models.py\<close>) and the request schemas
  (\<^verbatim>\<open>schemas.py\<close>) are not part of the sources at hand; the rows below carry exactly the
  columns the handlers read or write.
\<close>

text \<open>
  Modelled from the spec: the declaration of \<^verbatim>\<open>Collection\<close> in \<^verbatim>\<open>models.py\<close> is missing.
  Identity is an opaque string and the primary key; the owner is a user id; the
  description is optional; the creation time is a timestamp (a number here).
\<close>

record Collection =
  c_id :: string
  c_user_id :: string
  c_name :: string
  c_description :: "string option"
  c_created_at :: nat

text \<open>
  Modelled from the spec: the declaration of \<^verbatim>\<open>Record\<close> in \<^verbatim>\<open>models.py\<close> is missing.
  The membership reference \<^verbatim>\<open>collection_id\<close> is a nullable foreign key.
\<close>

record Record =
  r_id :: string
  r_user_id :: string
  r_filename :: string
  r_content :: string
  r_collection_id :: "string option"
  r_created_at :: nat

text \<open>
  Modelled from the spec: the declaration of \<^verbatim>\<open>Share\<close> in \<^verbatim>\<open>models.py\<close> is missing.
  A share has a token, a nullable collection reference and an active flag.
\<close>

record Share =
  s_id :: string
  s_share_token :: string
  s_collection_id :: "string option"
  s_is_active :: bool

text \<open>The database behind a session: each table is the list of its rows, in store order.\<close>

record Session =
  collections :: "Collection list"
  records :: "Record list"
  shares :: "Share list"

text \<open>The authenticated caller, as \<^verbatim>\<open>get_current_user\<close> delivers it; only \<^verbatim>\<open>id\<close> is read.\<close>

record User =
  u_id :: string

text \<open>
  Modelled from the spec: \<^verbatim>\<open>CollectionCreate\<close> and \<^verbatim>\<open>CollectionUpdate\<close> of \<^verbatim>\<open>schemas.py\<close> are
  missing. Create and Replace take a required name and an optional description;
  PatchUpdate takes both as optional. An absent field reads as \<^verbatim>\<open>None\<close>.
\<close>

record CollectionCreate =
  cc_name :: string
  cc_description :: "string option"

record CollectionUpdate =
  cu_name :: "string option"
  cu_description :: "string option"

text \<open>The dictionaries the handlers build: the acknowledgement and the shared view.\<close>

record MessageResponse =
  message :: string

record SharedCollection =
  sc_id :: string
  sc_name :: string
  sc_description :: "string option"
  sc_created_at :: nat

record SharedRecord =
  sr_id :: string
  sr_filename :: string
  sr_content :: string
  sr_created_at :: nat

record SharedCollectionResponse =
  shared_collection :: SharedCollection
  shared_records :: "SharedRecord list"

text \<open>
  Errors are values. \<^verbatim>\<open>HTTPException(status_code, detail)\<close> is what the handlers raise
  themselves; the other two are what the session raises when an insert repeats a
  primary key and when a refresh finds no row.
\<close>

datatype error =
  HTTPException nat string
| IntegrityError
| InvalidRequestError

section \<open>Session operations\<close>

text \<open>\<^verbatim>\<open>db.query(T).filter(p).first()\<close> is the first row that satisfies the filter.\<close>

definition first :: "('a \<Rightarrow> bool) \<Rightarrow> 'a list \<Rightarrow> 'a option" where
  "first p rows = find p rows"

text \<open>\<^verbatim>\<open>db.query(T).filter(p).all()\<close> is every row that satisfies the filter.\<close>

definition all_rows :: "('a \<Rightarrow> bool) \<Rightarrow> 'a list \<Rightarrow> 'a list" where
  "all_rows p rows = filter p rows"

text \<open>
  Committing a changed \<^verbatim>\<open>Collection\<close> object writes the assigned columns to the row
  with the object's primary key.
\<close>

definition flush_collection :: "string \<Rightarrow> string \<Rightarrow> string option \<Rightarrow> Collection list \<Rightarrow> Collection list" where
  "flush_collection pk n d rows =
     map (\<lambda>x. if c_id x = pk then x\<lparr>c_name := n, c_description := d\<rparr> else x) rows"

text \<open>
  Committing a \<^verbatim>\<open>Record\<close> object whose \<^verbatim>\<open>collection_id\<close> was assigned writes that
  column to the row with the object's primary key.
\<close>

definition flush_record :: "string \<Rightarrow> string option \<Rightarrow> Record list \<Rightarrow> Record list" where
  "flush_record pk v rows =
     map (\<lambda>x. if r_id x = pk then x\<lparr>r_collection_id := v\<rparr> else x) rows"

text \<open>
  \<^verbatim>\<open>db.query(Record).filter(Record.collection_id == collection_id).update({"collection_id": None})\<close>:
  a bulk update of every row the filter selects.
\<close>

definition clear_membership :: "string \<Rightarrow> Record list \<Rightarrow> Record list" where
  "clear_membership collection_id rows =
     map (\<lambda>x. if r_collection_id x = Some collection_id then x\<lparr>r_collection_id := None\<rparr> else x) rows"

text \<open>\<^verbatim>\<open>db.delete(obj)\<close> removes the row with the object's primary key.\<close>

definition delete_row :: "Collection \<Rightarrow> Collection list \<Rightarrow> Collection list" where
  "delete_row obj rows = filter (\<lambda>x. c_id x \<noteq> c_id obj) rows"

text \<open>\<^verbatim>\<open>db.refresh(obj)\<close> reloads the object from the row with its primary key.\<close>

definition refresh :: "Session \<Rightarrow> Collection \<Rightarrow> error + Collection" where
  "refresh db obj =
     (case first (\<lambda>x. c_id x = c_id obj) (collections db) of
        None \<Rightarrow> Inl InvalidRequestError
      | Some row \<Rightarrow> Inr row)"

section \<open>Handlers\<close>

text \<open>
  Every handler takes the session and returns its result together with the session as
  the request leaves it. A raised exception is \<open>Inl\<close>.
  The generated id and the creation time of a new row are column defaults; the model
  takes them as the two leading arguments of \<open>create_collection\<close>.
\<close>

definition create_collection ::
  "string \<Rightarrow> nat \<Rightarrow> CollectionCreate \<Rightarrow> Session \<Rightarrow> User \<Rightarrow> (error + Collection) \<times> Session" where
  "create_collection new_id now collection db current_user =
     (let db_collection = \<lparr>c_id = new_id, c_user_id = u_id current_user,
                           c_name = cc_name collection,
                           c_description = cc_description collection,
                           c_created_at = now\<rparr>
      in if new_id \<in> set (map c_id (collections db)) then (Inl IntegrityError, db)
         else let db' = db\<lparr>collections := collections db @ [db_collection]\<rparr>
              in (refresh db' db_collection, db'))"

definition get_all_collections :: "Session \<Rightarrow> User \<Rightarrow> (error + Collection list) \<times> Session" where
  "get_all_collections db current_user =
     (Inr (all_rows (\<lambda>c. c_user_id c = u_id current_user) (collections db)), db)"

definition get_collection :: "string \<Rightarrow> Session \<Rightarrow> User \<Rightarrow> (error + Collection) \<times> Session" where
  "get_collection collection_id db current_user =
     (case first (\<lambda>c. c_id c = collection_id \<and> c_user_id c = u_id current_user) (collections db) of
        None \<Rightarrow> (Inl (HTTPException 404 ''Collection not found''), db)
      | Some collection \<Rightarrow> (Inr collection, db))"

definition update_collection ::
  "string \<Rightarrow> CollectionCreate \<Rightarrow> Session \<Rightarrow> User \<Rightarrow> (error + Collection) \<times> Session" where
  "update_collection collection_id collection db current_user =
     (case first (\<lambda>c. c_id c = collection_id \<and> c_user_id c = u_id current_user) (collections db) of
        None \<Rightarrow> (Inl (HTTPException 404 ''Collection not found''), db)
      | Some db_collection \<Rightarrow>
          let db' = db\<lparr>collections :=
                        flush_collection (c_id db_collection) (cc_name collection)
                          (cc_description collection) (collections db)\<rparr>
          in (refresh db' db_collection, db'))"

definition update_collection_partial ::
  "string \<Rightarrow> CollectionUpdate \<Rightarrow> Session \<Rightarrow> User \<Rightarrow> (error + Collection) \<times> Session" where
  "update_collection_partial collection_id collection_update db current_user =
     (case first (\<lambda>c. c_id c = collection_id \<and> c_user_id c = u_id current_user) (collections db) of
        None \<Rightarrow> (Inl (HTTPException 404 ''Collection not found''), db)
      | Some db_collection \<Rightarrow>
          let name' = (case cu_name collection_update of
                         Some n \<Rightarrow> n | None \<Rightarrow> c_name db_collection);
              description' = (case cu_description collection_update of
                         Some d \<Rightarrow> Some d | None \<Rightarrow> c_description db_collection);
              db' = db\<lparr>collections :=
                        flush_collection (c_id db_collection) name' description' (collections db)\<rparr>
          in (refresh db' db_collection, db'))"

definition get_records_from_collection ::
  "string \<Rightarrow> Session \<Rightarrow> User \<Rightarrow> (error + Record list) \<times> Session" where
  "get_records_from_collection collection_id db current_user =
     (case first (\<lambda>c. c_id c = collection_id \<and> c_user_id c = u_id current_user) (collections db) of
        None \<Rightarrow> (Inl (HTTPException 404 ''Collection not found''), db)
      | Some collection \<Rightarrow>
          (Inr (all_rows (\<lambda>r. r_collection_id r = Some collection_id) (records db)), db))"

definition add_record_to_collection ::
  "string \<Rightarrow> string \<Rightarrow> Session \<Rightarrow> User \<Rightarrow> (error + MessageResponse) \<times> Session" where
  "add_record_to_collection collection_id record_id db current_user =
     (case first (\<lambda>c. c_id c = collection_id \<and> c_user_id c = u_id current_user) (collections db) of
        None \<Rightarrow> (Inl (HTTPException 404 ''Collection not found''), db)
      | Some collection \<Rightarrow>
          (case first (\<lambda>r. r_id r = record_id \<and> r_user_id r = u_id current_user) (records db) of
             None \<Rightarrow> (Inl (HTTPException 404 ''Record not found''), db)
           | Some record \<Rightarrow>
               (Inr \<lparr>message = ''Record added to collection successfully''\<rparr>,
                db\<lparr>records := flush_record (r_id record) (Some collection_id) (records db)\<rparr>)))"

definition remove_record_from_collection ::
  "string \<Rightarrow> string \<Rightarrow> Session \<Rightarrow> User \<Rightarrow> (error + MessageResponse) \<times> Session" where
  "remove_record_from_collection collection_id record_id db current_user =
     (case first (\<lambda>c. c_id c = collection_id \<and> c_user_id c = u_id current_user) (collections db) of
        None \<Rightarrow> (Inl (HTTPException 404 ''Collection not found''), db)
      | Some collection \<Rightarrow>
          (case first (\<lambda>r. r_id r = record_id \<and> r_user_id r = u_id current_user
                            \<and> r_collection_id r = Some collection_id) (records db) of
             None \<Rightarrow> (Inl (HTTPException 404 ''Record not found in this collection''), db)
           | Some record \<Rightarrow>
               (Inr \<lparr>message = ''Record removed from collection successfully''\<rparr>,
                db\<lparr>records := flush_record (r_id record) None (records db)\<rparr>)))"

definition delete_collection ::
  "string \<Rightarrow> Session \<Rightarrow> User \<Rightarrow> (error + MessageResponse) \<times> Session" where
  "delete_collection collection_id db current_user =
     (case first (\<lambda>c. c_id c = collection_id \<and> c_user_id c = u_id current_user) (collections db) of
        None \<Rightarrow> (Inl (HTTPException 404 ''Collection not found''), db)
      | Some collection \<Rightarrow>
          (Inr \<lparr>message = ''Collection deleted successfully''\<rparr>,
           db\<lparr>records := clear_membership collection_id (records db),
              collections := delete_row collection (collections db)\<rparr>))"

definition access_shared_collection ::
  "string \<Rightarrow> Session \<Rightarrow> (error + SharedCollectionResponse) \<times> Session" where
  "access_shared_collection share_token db =
     (case first (\<lambda>s. s_share_token s = share_token \<and> s_is_active s = True
                       \<and> s_collection_id s \<noteq> None) (shares db) of
        None \<Rightarrow> (Inl (HTTPException 404 ''Invalid or expired share link''), db)
      | Some share \<Rightarrow>
          (case first (\<lambda>c. Some (c_id c) = s_collection_id share) (collections db) of
             None \<Rightarrow> (Inl (HTTPException 404 ''Collection not found''), db)
           | Some collection \<Rightarrow>
               (Inr \<lparr>shared_collection =
                       \<lparr>sc_id = c_id collection, sc_name = c_name collection,
                        sc_description = c_description collection,
                        sc_created_at = c_created_at collection\<rparr>,
                     shared_records =
                       map (\<lambda>record. \<lparr>sr_id = r_id record, sr_filename = r_filename record,
                                       sr_content = r_content record,
                                       sr_created_at = r_created_at record\<rparr>)
                         (all_rows (\<lambda>r. r_collection_id r = s_collection_id share) (records db))\<rparr>,
                db)))"

text \<open>The primary keys of a table are pairwise different.\<close>

definition primary_keys :: "Session \<Rightarrow> bool" where
  "primary_keys db \<longleftrightarrow> distinct (map c_id (collections db)) \<and> distinct (map r_id (records db))"

section \<open>A small store\<close>

text \<open>
  Two users, three collections (two of Alice, one of Bob), four records and three
  shares. Record \<open>b_txt\<close> is Bob's but refers to Alice's collection \<open>c1\<close>.
\<close>

definition alice :: User where
  "alice = \<lparr>u_id = ''alice''\<rparr>"

definition bob :: User where
  "bob = \<lparr>u_id = ''bob''\<rparr>"

definition work :: Collection where
  "work = \<lparr>c_id = ''c1'', c_user_id = ''alice'', c_name = ''Work'',
           c_description = Some ''tasks'', c_created_at = 1\<rparr>"

definition diary :: Collection where
  "diary = \<lparr>c_id = ''c2'', c_user_id = ''bob'', c_name = ''Notes'',
            c_description = None, c_created_at = 2\<rparr>"

definition home :: Collection where
  "home = \<lparr>c_id = ''c3'', c_user_id = ''alice'', c_name = ''Home'',
           c_description = None, c_created_at = 3\<rparr>"

definition a_txt :: Record where
  "a_txt = \<lparr>r_id = ''r1'', r_user_id = ''alice'', r_filename = ''a.txt'', r_content = ''hi'',
            r_collection_id = Some ''c1'', r_created_at = 4\<rparr>"

definition b_txt :: Record where
  "b_txt = \<lparr>r_id = ''r2'', r_user_id = ''bob'', r_filename = ''b.txt'', r_content = ''yo'',
            r_collection_id = Some ''c1'', r_created_at = 5\<rparr>"

definition c_txt :: Record where
  "c_txt = \<lparr>r_id = ''r3'', r_user_id = ''alice'', r_filename = ''c.txt'', r_content = ''ok'',
            r_collection_id = None, r_created_at = 6\<rparr>"

definition d_txt :: Record where
  "d_txt = \<lparr>r_id = ''r4'', r_user_id = ''alice'', r_filename = ''d.txt'', r_content = ''no'',
            r_collection_id = Some ''c3'', r_created_at = 7\<rparr>"

definition live_share :: Share where
  "live_share = \<lparr>s_id = ''s1'', s_share_token = ''tok-live'',
                 s_collection_id = Some ''c1'', s_is_active = True\<rparr>"

definition revoked_share :: Share where
  "revoked_share = \<lparr>s_id = ''s2'', s_share_token = ''tok-revoked'',
                    s_collection_id = Some ''c1'', s_is_active = False\<rparr>"

definition other_share :: Share where
  "other_share = \<lparr>s_id = ''s3'', s_share_token = ''tok-other'',
                  s_collection_id = None, s_is_active = True\<rparr>"

definition store :: Session where
  "store = \<lparr>collections = [work, diary, home],
            records = [a_txt, b_txt, c_txt, d_txt],
            shares = [live_share, revoked_share, other_share]\<rparr>"

lemmas store_defs = store_def alice_def bob_def work_def diary_def home_def
  a_txt_def b_txt_def c_txt_def d_txt_def live_share_def revoked_share_def other_share_def

section \<open>Lookups\<close>

lemma first_None_iff: "first p rows = None \<longleftrightarrow> (\<forall>x\<in>set rows. \<not> p x)"
  by (auto simp: first_def find_None_iff)

lemma first_SomeD: "first p rows = Some x \<Longrightarrow> x \<in> set rows \<and> p x"
  by (auto simp: first_def find_Some_iff)

lemma first_by_key:
  assumes "distinct (map k rows)" and "x \<in> set rows" and "p x"
    and "\<forall>y\<in>set rows. p y \<longrightarrow> k y = k x"
  shows "first p rows = Some x"
  using assms
proof (induction rows)
  case Nil
  then show ?case by simp
next
  case (Cons a rows)
  show ?case
  proof (cases "a = x")
    case True
    with \<open>p x\<close> show ?thesis by (simp add: first_def)
  next
    case False
    with Cons.prems(2) have xin: "x \<in> set rows" by simp
    from Cons.prems(1) have ka: "k a \<notin> k ` set rows" by simp
    with xin have "k a \<noteq> k x" by force
    with Cons.prems(4) have "\<not> p a" by auto
    moreover have "first p rows = Some x"
    proof (rule Cons.IH)
      show "distinct (map k rows)" using Cons.prems(1) by simp
      show "x \<in> set rows" by (rule xin)
      show "p x" by (rule Cons.prems(3))
      show "\<forall>y\<in>set rows. p y \<longrightarrow> k y = k x" using Cons.prems(4) by simp
    qed
    ultimately show ?thesis by (simp add: first_def)
  qed
qed

lemma same_key_same_row:
  assumes "distinct (map k rows)" and "x \<in> set rows" and "y \<in> set rows" and "k y = k x"
  shows "y = x"
proof -
  from assms(1) have "inj_on k (set rows)" by (simp add: distinct_map)
  with assms(2-4) show ?thesis by (auto dest: inj_onD)
qed

lemma first_owned:
  assumes "distinct (map c_id rows)" and "c \<in> set rows"
  shows "first (\<lambda>x. c_id x = c_id c \<and> c_user_id x = c_user_id c) rows = Some c"
  by (rule first_by_key [where k = c_id]) (use assms in auto)

lemma first_foreign:
  assumes "distinct (map c_id rows)" and "c \<in> set rows" and "v \<noteq> c_user_id c"
  shows "first (\<lambda>x. c_id x = c_id c \<and> c_user_id x = v) rows = None"
proof -
  have "\<not> (c_id x = c_id c \<and> c_user_id x = v)" if "x \<in> set rows" for x
  proof
    assume h: "c_id x = c_id c \<and> c_user_id x = v"
    with assms(1,2) that have "x = c" by (blast intro: same_key_same_row)
    with h assms(3) show False by simp
  qed
  then show ?thesis by (simp add: first_None_iff)
qed

lemma first_map:
  "first p (map f rows) = map_option f (first (\<lambda>x. p (f x)) rows)"
  by (induction rows) (simp_all add: first_def)

lemma flush_collection_keys: "map c_id (flush_collection pk n d rows) = map c_id rows"
  by (induction rows) (simp_all add: flush_collection_def)

lemma flush_record_keys: "map r_id (flush_record pk v rows) = map r_id rows"
  by (induction rows) (simp_all add: flush_record_def)

lemma clear_membership_keys: "map r_id (clear_membership cid rows) = map r_id rows"
  by (induction rows) (simp_all add: clear_membership_def)

lemma flush_collection_unique:
  assumes "distinct (map c_id rows)" and "c \<in> set rows"
  shows "flush_collection (c_id c) n d rows =
         map (\<lambda>x. if x = c then c\<lparr>c_name := n, c_description := d\<rparr> else x) rows"
  unfolding flush_collection_def
proof (rule map_cong [OF refl])
  fix x assume "x \<in> set rows"
  with assms have "c_id x = c_id c \<longleftrightarrow> x = c"
    by (blast intro: same_key_same_row)
  then show "(if c_id x = c_id c then x\<lparr>c_name := n, c_description := d\<rparr> else x) =
             (if x = c then c\<lparr>c_name := n, c_description := d\<rparr> else x)"
    by auto
qed

lemma refresh_after_flush:
  assumes "distinct (map c_id rows)" and "c \<in> set rows"
  shows "refresh (db\<lparr>collections := flush_collection (c_id c) n d rows\<rparr>) c =
         Inr (c\<lparr>c_name := n, c_description := d\<rparr>)"
proof -
  let ?c' = "c\<lparr>c_name := n, c_description := d\<rparr>"
  have "first (\<lambda>x. c_id x = c_id c) (flush_collection (c_id c) n d rows) = Some ?c'"
  proof (rule first_by_key [where k = c_id])
    show "distinct (map c_id (flush_collection (c_id c) n d rows))"
      using assms(1) by (simp add: flush_collection_keys)
    show "?c' \<in> set (flush_collection (c_id c) n d rows)"
      using assms(2) by (force simp: flush_collection_def)
  qed auto
  then show ?thesis by (simp add: refresh_def)
qed

section \<open>The primary keys stay unique\<close>

lemma primary_keys_create:
  "primary_keys db \<Longrightarrow> primary_keys (snd (create_collection new_id now cc db u))"
  by (auto simp: create_collection_def primary_keys_def Let_def)

lemma primary_keys_update:
  "primary_keys db \<Longrightarrow> primary_keys (snd (update_collection cid cc db u))"
  by (auto simp: update_collection_def primary_keys_def Let_def flush_collection_keys
      split: option.splits)

lemma primary_keys_update_partial:
  "primary_keys db \<Longrightarrow> primary_keys (snd (update_collection_partial cid cu db u))"
  by (auto simp: update_collection_partial_def primary_keys_def Let_def flush_collection_keys
      split: option.splits)

lemma primary_keys_add_record:
  "primary_keys db \<Longrightarrow> primary_keys (snd (add_record_to_collection cid rid db u))"
  by (auto simp: add_record_to_collection_def primary_keys_def flush_record_keys
      split: option.splits)

lemma primary_keys_remove_record:
  "primary_keys db \<Longrightarrow> primary_keys (snd (remove_record_from_collection cid rid db u))"
  by (auto simp: remove_record_from_collection_def primary_keys_def flush_record_keys
      split: option.splits)

lemma primary_keys_delete:
  "primary_keys db \<Longrightarrow> primary_keys (snd (delete_collection cid db u))"
  by (auto simp: delete_collection_def primary_keys_def clear_membership_keys delete_row_def
      distinct_map_filter split: option.splits)

lemma primary_keys_store: "primary_keys store"
  by (simp add: primary_keys_def store_defs)

section \<open>Reading a collection\<close>

text \<open>
  C1. In a store with unique primary keys, reading a stored collection \<open>c\<close> by its id as
  its owner returns \<open>c\<close>; as any other caller it raises 404 "Collection not found", and
  so does reading an id that no collection has, with the same exception and the same
  untouched store: a foreign collection cannot be told from a missing one. The same
  holds for a collection that the caller has just created under a fresh id.
\<close>

theorem get_collection_owner_only:
  assumes "primary_keys db" and "c \<in> set (collections db)"
  shows "get_collection (c_id c) db \<lparr>u_id = c_user_id c\<rparr> = (Inr c, db)
       \<and> (\<forall>v. u_id v \<noteq> c_user_id c \<longrightarrow>
            get_collection (c_id c) db v = (Inl (HTTPException 404 ''Collection not found''), db))
       \<and> (\<forall>missing v. missing \<notin> c_id ` set (collections db) \<longrightarrow>
            get_collection missing db v = (Inl (HTTPException 404 ''Collection not found''), db))
       \<and> (\<forall>new_id now cc u. new_id \<notin> c_id ` set (collections db) \<longrightarrow>
            (\<exists>c' db'. create_collection new_id now cc db u = (Inr c', db')
               \<and> c_user_id c' = u_id u
               \<and> get_collection (c_id c') db' u = (Inr c', db')
               \<and> (\<forall>v. u_id v \<noteq> u_id u \<longrightarrow>
                    get_collection (c_id c') db' v =
                      (Inl (HTTPException 404 ''Collection not found''), db'))))"
proof (intro conjI allI impI)
  from assms have d: "distinct (map c_id (collections db))"
    by (simp add: primary_keys_def)
  show "get_collection (c_id c) db \<lparr>u_id = c_user_id c\<rparr> = (Inr c, db)"
    using first_owned [OF d assms(2)] by (simp add: get_collection_def)
  show "get_collection (c_id c) db v = (Inl (HTTPException 404 ''Collection not found''), db)"
    if "u_id v \<noteq> c_user_id c" for v
    using first_foreign [OF d assms(2) that] by (simp add: get_collection_def)
  show "get_collection missing db v = (Inl (HTTPException 404 ''Collection not found''), db)"
    if "missing \<notin> c_id ` set (collections db)" for missing v
  proof -
    from that have "first (\<lambda>x. c_id x = missing \<and> c_user_id x = u_id v) (collections db) = None"
      by (auto simp: first_None_iff)
    then show ?thesis by (simp add: get_collection_def)
  qed
  show "\<exists>c' db'. create_collection new_id now cc db u = (Inr c', db')
          \<and> c_user_id c' = u_id u
          \<and> get_collection (c_id c') db' u = (Inr c', db')
          \<and> (\<forall>v. u_id v \<noteq> u_id u \<longrightarrow>
               get_collection (c_id c') db' v =
                 (Inl (HTTPException 404 ''Collection not found''), db'))"
    if fresh: "new_id \<notin> c_id ` set (collections db)" for new_id now cc u
  proof -
    let ?c = "\<lparr>c_id = new_id, c_user_id = u_id u, c_name = cc_name cc,
               c_description = cc_description cc, c_created_at = now\<rparr>"
    let ?rows = "collections db @ [?c]"
    let ?db = "db\<lparr>collections := ?rows\<rparr>"
    have d': "distinct (map c_id ?rows)" using d fresh by simp
    have cin: "?c \<in> set ?rows" by simp
    have "first (\<lambda>x. c_id x = c_id ?c) ?rows = Some ?c"
      by (rule first_by_key [where k = c_id, OF d' cin]) auto
    then have cr: "create_collection new_id now cc db u = (Inr ?c, ?db)"
      using fresh by (simp add: create_collection_def refresh_def Let_def)
    have own: "get_collection (c_id ?c) ?db u = (Inr ?c, ?db)"
      using first_owned [OF d' cin] by (simp add: get_collection_def)
    have other: "get_collection (c_id ?c) ?db v =
                   (Inl (HTTPException 404 ''Collection not found''), ?db)"
      if "u_id v \<noteq> u_id u" for v
    proof -
      from that have "u_id v \<noteq> c_user_id ?c" by simp
      from first_foreign [OF d' cin this] show ?thesis by (simp add: get_collection_def)
    qed
    from cr own other show ?thesis by (intro exI [of _ ?c] exI [of _ ?db]) simp
  qed
qed

theorem get_collection_owner_only_witness:
  "get_collection ''c1'' store alice = (Inr work, store)
   \<and> get_collection ''c1'' store bob = (Inl (HTTPException 404 ''Collection not found''), store)
   \<and> get_collection ''c9'' store bob = (Inl (HTTPException 404 ''Collection not found''), store)
   \<and> (\<exists>c' db'. create_collection ''c9'' 8 \<lparr>cc_name = ''New'', cc_description = None\<rparr> store bob
                  = (Inr c', db')
        \<and> get_collection ''c9'' db' bob = (Inr c', db')
        \<and> get_collection ''c9'' db' alice
             = (Inl (HTTPException 404 ''Collection not found''), db'))"
proof -
  have win: "work \<in> set (collections store)" by (simp add: store_def)
  note t = get_collection_owner_only [OF primary_keys_store win]
  have 1: "get_collection ''c1'' store alice = (Inr work, store)"
    using t by (simp add: work_def alice_def)
  have 2: "get_collection ''c1'' store bob
             = (Inl (HTTPException 404 ''Collection not found''), store)"
    using t by (simp add: work_def bob_def)
  have 3: "get_collection ''c9'' store bob
             = (Inl (HTTPException 404 ''Collection not found''), store)"
    using t by (simp add: store_defs)
  have fresh: "''c9'' \<notin> c_id ` set (collections store)" by (simp add: store_defs)
  from t fresh obtain c' db' where
    cr: "create_collection ''c9'' 8 \<lparr>cc_name = ''New'', cc_description = None\<rparr> store bob
           = (Inr c', db')"
    and rest: "c_user_id c' = u_id bob" "get_collection (c_id c') db' bob = (Inr c', db')"
      "\<forall>v. u_id v \<noteq> u_id bob \<longrightarrow>
         get_collection (c_id c') db' v = (Inl (HTTPException 404 ''Collection not found''), db')"
    by blast
  from cr have "c_id c' = ''c9''"
    by (auto simp: create_collection_def Let_def refresh_def first_def store_defs
        split: if_splits)
  with cr rest have 4: "\<exists>c' db'.
      create_collection ''c9'' 8 \<lparr>cc_name = ''New'', cc_description = None\<rparr> store bob
        = (Inr c', db')
      \<and> get_collection ''c9'' db' bob = (Inr c', db')
      \<and> get_collection ''c9'' db' alice
           = (Inl (HTTPException 404 ''Collection not found''), db')"
    by (auto simp: alice_def bob_def)
  from 1 2 3 4 show ?thesis by blast
qed

section \<open>Deleting a collection\<close>

text \<open>
  C2. Deleting a stored collection \<open>c\<close> as its owner succeeds. Afterwards reading
  \<open>c\<close>'s id raises 404 for every caller. The records table keeps its length and its
  order: a record that referred to \<open>c\<close> is the same record with the membership reference
  cleared, every other record is untouched. The shares are untouched.
\<close>

theorem delete_collection_unlinks_records:
  assumes "c \<in> set (collections db)" and "u_id u = c_user_id c"
  shows "\<exists>db'. delete_collection (c_id c) db u =
                  (Inr \<lparr>message = ''Collection deleted successfully''\<rparr>, db')
           \<and> (\<forall>v. get_collection (c_id c) db' v =
                     (Inl (HTTPException 404 ''Collection not found''), db'))
           \<and> length (records db') = length (records db)
           \<and> (\<forall>i < length (records db).
                 (r_collection_id (records db ! i) = Some (c_id c) \<longrightarrow>
                    records db' ! i = (records db ! i)\<lparr>r_collection_id := None\<rparr>)
               \<and> (r_collection_id (records db ! i) \<noteq> Some (c_id c) \<longrightarrow>
                    records db' ! i = records db ! i))
           \<and> shares db' = shares db"
proof -
  from assms have "first (\<lambda>x. c_id x = c_id c \<and> c_user_id x = u_id u) (collections db) \<noteq> None"
    by (auto simp: first_None_iff)
  then obtain c0 where
    f: "first (\<lambda>x. c_id x = c_id c \<and> c_user_id x = u_id u) (collections db) = Some c0"
    by blast
  then have k: "c_id c0 = c_id c" by (auto dest: first_SomeD)
  let ?db = "db\<lparr>records := clear_membership (c_id c) (records db),
                collections := delete_row c0 (collections db)\<rparr>"
  have del: "delete_collection (c_id c) db u =
               (Inr \<lparr>message = ''Collection deleted successfully''\<rparr>, ?db)"
    using f by (simp add: delete_collection_def)
  have gone: "get_collection (c_id c) ?db v =
                (Inl (HTTPException 404 ''Collection not found''), ?db)" for v
  proof -
    have "first (\<lambda>x. c_id x = c_id c \<and> c_user_id x = u_id v) (delete_row c0 (collections db)) = None"
      using k by (auto simp: first_None_iff delete_row_def)
    then show ?thesis by (simp add: get_collection_def)
  qed
  have len: "length (records ?db) = length (records db)"
    by (simp add: clear_membership_def)
  have rows: "(r_collection_id (records db ! i) = Some (c_id c) \<longrightarrow>
                 records ?db ! i = (records db ! i)\<lparr>r_collection_id := None\<rparr>)
            \<and> (r_collection_id (records db ! i) \<noteq> Some (c_id c) \<longrightarrow>
                 records ?db ! i = records db ! i)"
    if "i < length (records db)" for i
    using that by (simp add: clear_membership_def)
  have sh: "shares ?db = shares db" by simp
  from del gone len rows sh show ?thesis by blast
qed

theorem delete_collection_unlinks_records_witness:
  "\<exists>db'. delete_collection ''c1'' store alice =
            (Inr \<lparr>message = ''Collection deleted successfully''\<rparr>, db')
     \<and> get_collection ''c1'' db' alice = (Inl (HTTPException 404 ''Collection not found''), db')
     \<and> records db' ! 0 = a_txt\<lparr>r_collection_id := None\<rparr>
     \<and> records db' ! 1 = b_txt\<lparr>r_collection_id := None\<rparr>
     \<and> records db' ! 2 = c_txt
     \<and> records db' ! 3 = d_txt"
proof -
  have win: "work \<in> set (collections store)" by (simp add: store_def)
  have own: "u_id alice = c_user_id work" by (simp add: alice_def work_def)
  from delete_collection_unlinks_records [OF win own] obtain db' where
    del: "delete_collection (c_id work) store alice =
            (Inr \<lparr>message = ''Collection deleted successfully''\<rparr>, db')"
    and gone: "\<forall>v. get_collection (c_id work) db' v =
                 (Inl (HTTPException 404 ''Collection not found''), db')"
    and rows: "\<forall>i < length (records store).
                 (r_collection_id (records store ! i) = Some (c_id work) \<longrightarrow>
                    records db' ! i = (records store ! i)\<lparr>r_collection_id := None\<rparr>)
               \<and> (r_collection_id (records store ! i) \<noteq> Some (c_id work) \<longrightarrow>
                    records db' ! i = records store ! i)"
    by blast
  have id: "c_id work = ''c1''" by (simp add: work_def)
  have r0: "records db' ! 0 = a_txt\<lparr>r_collection_id := None\<rparr>"
    using rows [rule_format, of 0] by (simp add: store_defs)
  have r1: "records db' ! 1 = b_txt\<lparr>r_collection_id := None\<rparr>"
    using rows [rule_format, of 1] by (simp add: store_defs)
  have r2: "records db' ! 2 = c_txt"
    using rows [rule_format, of 2] by (simp add: store_defs)
  have r3: "records db' ! 3 = d_txt"
    using rows [rule_format, of 3] by (simp add: store_defs)
  from del gone r0 r1 r2 r3 show ?thesis unfolding id by blast
qed

section \<open>Replace and PatchUpdate\<close>

text \<open>
  C3. On a stored collection \<open>c\<close> of the caller, in a store with unique primary keys:
  PatchUpdate writes the name only when a name is given and the description only when a
  description is given, and keeps the stored value of a field that is absent; Replace
  writes both fields, so an omitted description becomes null. Both return the row as
  written, and change no other row and no other column.
\<close>

theorem patch_keeps_absent_replace_overwrites:
  assumes "primary_keys db" and "c \<in> set (collections db)" and "u_id u = c_user_id c"
  shows "(let c' = c\<lparr>c_name := (case cu_name upd of None \<Rightarrow> c_name c | Some n \<Rightarrow> n),
                     c_description := (case cu_description upd of
                                         None \<Rightarrow> c_description c | Some d \<Rightarrow> Some d)\<rparr>
          in update_collection_partial (c_id c) upd db u =
               (Inr c', db\<lparr>collections := map (\<lambda>x. if x = c then c' else x) (collections db)\<rparr>))
       \<and> (let c' = c\<lparr>c_name := cc_name new, c_description := cc_description new\<rparr>
          in update_collection (c_id c) new db u =
               (Inr c', db\<lparr>collections := map (\<lambda>x. if x = c then c' else x) (collections db)\<rparr>))"
proof -
  from assms(1) have d: "distinct (map c_id (collections db))"
    by (simp add: primary_keys_def)
  have f: "first (\<lambda>x. c_id x = c_id c \<and> c_user_id x = u_id u) (collections db) = Some c"
    using first_owned [OF d assms(2)] assms(3) by simp
  have patch: "update_collection_partial (c_id c) upd db u =
                 (Inr (c\<lparr>c_name := n, c_description := ds\<rparr>),
                  db\<lparr>collections :=
                       map (\<lambda>x. if x = c then c\<lparr>c_name := n, c_description := ds\<rparr> else x)
                         (collections db)\<rparr>)"
    if "n = (case cu_name upd of None \<Rightarrow> c_name c | Some n \<Rightarrow> n)"
      and "ds = (case cu_description upd of None \<Rightarrow> c_description c | Some d \<Rightarrow> Some d)"
    for n ds
  proof -
    have "update_collection_partial (c_id c) upd db u =
            (refresh (db\<lparr>collections := flush_collection (c_id c) n ds (collections db)\<rparr>) c,
             db\<lparr>collections := flush_collection (c_id c) n ds (collections db)\<rparr>)"
      using f that by (simp add: update_collection_partial_def Let_def split: option.splits)
    then show ?thesis
      unfolding refresh_after_flush [OF d assms(2)]
      unfolding flush_collection_unique [OF d assms(2)] .
  qed
  have put: "update_collection (c_id c) new db u =
               (Inr (c\<lparr>c_name := cc_name new, c_description := cc_description new\<rparr>),
                db\<lparr>collections :=
                     map (\<lambda>x. if x = c
                               then c\<lparr>c_name := cc_name new, c_description := cc_description new\<rparr>
                               else x)
                       (collections db)\<rparr>)"
  proof -
    have "update_collection (c_id c) new db u =
            (refresh (db\<lparr>collections := flush_collection (c_id c) (cc_name new)
                                         (cc_description new) (collections db)\<rparr>) c,
             db\<lparr>collections := flush_collection (c_id c) (cc_name new)
                                  (cc_description new) (collections db)\<rparr>)"
      using f by (simp add: update_collection_def Let_def)
    then show ?thesis
      unfolding refresh_after_flush [OF d assms(2)]
      unfolding flush_collection_unique [OF d assms(2)] .
  qed
  from patch [OF refl refl] put show ?thesis by (simp add: Let_def)
qed

theorem patch_keeps_absent_replace_overwrites_witness:
  "update_collection_partial ''c1'' \<lparr>cu_name = Some ''Job'', cu_description = None\<rparr> store alice =
     (Inr (work\<lparr>c_name := ''Job''\<rparr>),
      store\<lparr>collections := [work\<lparr>c_name := ''Job''\<rparr>, diary, home]\<rparr>)
   \<and> update_collection_partial ''c1'' \<lparr>cu_name = None, cu_description = Some ''jobs''\<rparr> store alice =
     (Inr (work\<lparr>c_description := Some ''jobs''\<rparr>),
      store\<lparr>collections := [work\<lparr>c_description := Some ''jobs''\<rparr>, diary, home]\<rparr>)
   \<and> update_collection ''c1'' \<lparr>cc_name = ''Job'', cc_description = None\<rparr> store alice =
     (Inr (work\<lparr>c_name := ''Job'', c_description := None\<rparr>),
      store\<lparr>collections := [work\<lparr>c_name := ''Job'', c_description := None\<rparr>, diary, home]\<rparr>)"
proof -
  have win: "work \<in> set (collections store)" by (simp add: store_def)
  have own: "u_id alice = c_user_id work" by (simp add: alice_def work_def)
  note t = patch_keeps_absent_replace_overwrites [OF primary_keys_store win own]
  have 1: "update_collection_partial ''c1'' \<lparr>cu_name = Some ''Job'', cu_description = None\<rparr>
             store alice =
           (Inr (work\<lparr>c_name := ''Job''\<rparr>),
            store\<lparr>collections := [work\<lparr>c_name := ''Job''\<rparr>, diary, home]\<rparr>)"
    using t [of "\<lparr>cu_name = Some ''Job'', cu_description = None\<rparr>"]
    by (simp add: Let_def store_defs)
  have 2: "update_collection_partial ''c1'' \<lparr>cu_name = None, cu_description = Some ''jobs''\<rparr>
             store alice =
           (Inr (work\<lparr>c_description := Some ''jobs''\<rparr>),
            store\<lparr>collections := [work\<lparr>c_description := Some ''jobs''\<rparr>, diary, home]\<rparr>)"
    using t [of "\<lparr>cu_name = None, cu_description = Some ''jobs''\<rparr>"]
    by (simp add: Let_def store_defs)
  have 3: "update_collection ''c1'' \<lparr>cc_name = ''Job'', cc_description = None\<rparr> store alice =
           (Inr (work\<lparr>c_name := ''Job'', c_description := None\<rparr>),
            store\<lparr>collections := [work\<lparr>c_name := ''Job'', c_description := None\<rparr>, diary, home]\<rparr>)"
    using t [of _ "\<lparr>cc_name = ''Job'', cc_description = None\<rparr>"]
    by (simp add: Let_def store_defs)
  from 1 2 3 show ?thesis by blast
qed

section \<open>Access through a share token\<close>

text \<open>
  C4. When every share that carries the token \<open>t\<close> is inactive or has no collection
  reference (in particular when no share carries \<open>t\<close> at all), the shared access raises
  404 "Invalid or expired share link" and leaves the store as it was. The three
  cases of an unknown token, a deactivated share and a share without a collection give
  one and the same exception.
\<close>

theorem access_shared_invalid_token_uniform:
  assumes "\<forall>s\<in>set (shares db). s_share_token s = t \<longrightarrow> \<not> s_is_active s \<or> s_collection_id s = None"
  shows "access_shared_collection t db =
           (Inl (HTTPException 404 ''Invalid or expired share link''), db)"
proof -
  from assms have "first (\<lambda>s. s_share_token s = t \<and> s_is_active s = True
                          \<and> s_collection_id s \<noteq> None) (shares db) = None"
    by (auto simp: first_None_iff)
  then show ?thesis by (simp add: access_shared_collection_def)
qed

theorem access_shared_invalid_token_uniform_witness:
  "access_shared_collection ''tok-unknown'' store =
     (Inl (HTTPException 404 ''Invalid or expired share link''), store)
   \<and> access_shared_collection ''tok-revoked'' store =
     (Inl (HTTPException 404 ''Invalid or expired share link''), store)
   \<and> access_shared_collection ''tok-other'' store =
     (Inl (HTTPException 404 ''Invalid or expired share link''), store)"
proof -
  have 1: "access_shared_collection ''tok-unknown'' store =
             (Inl (HTTPException 404 ''Invalid or expired share link''), store)"
    by (rule access_shared_invalid_token_uniform) (simp add: store_defs)
  have 2: "access_shared_collection ''tok-revoked'' store =
             (Inl (HTTPException 404 ''Invalid or expired share link''), store)"
    by (rule access_shared_invalid_token_uniform) (simp add: store_defs)
  have 3: "access_shared_collection ''tok-other'' store =
             (Inl (HTTPException 404 ''Invalid or expired share link''), store)"
    by (rule access_shared_invalid_token_uniform) (simp add: store_defs)
  from 1 2 3 show ?thesis by blast
qed

lemma first_share:
  assumes "distinct (map s_share_token rows)" and "s \<in> set rows"
    and "s_is_active s" and "s_collection_id s = Some cid"
  shows "first (\<lambda>x. s_share_token x = s_share_token s \<and> s_is_active x = True
                    \<and> s_collection_id x \<noteq> None) rows = Some s"
  by (rule first_by_key [where k = s_share_token]) (use assms in auto)

lemma first_referenced:
  assumes "distinct (map c_id rows)" and "c \<in> set rows"
  shows "first (\<lambda>x. Some (c_id x) = Some (c_id c)) rows = Some c"
  by (rule first_by_key [where k = c_id]) (use assms in auto)

lemma access_shared_ignores_owners:
  "fst (access_shared_collection t
          (db\<lparr>collections := map (\<lambda>x. x\<lparr>c_user_id := f x\<rparr>) (collections db),
              records := map (\<lambda>x. x\<lparr>r_user_id := g x\<rparr>) (records db)\<rparr>))
   = fst (access_shared_collection t db)"
  by (simp add: access_shared_collection_def first_map all_rows_def filter_map o_def
      split: option.splits)

text \<open>
  C5. For a token carried by an active share that refers to a stored collection \<open>c\<close>
  (tokens and primary keys unique), the shared access succeeds. Its answer consists of
  the id, name, description and creation time of \<open>c\<close> and, for every record that refers
  to \<open>c\<close>, of that record's id, filename, content and creation time, and of nothing else.
  The owner ids do not reach the answer: rewriting the owner of every collection and of
  every record in the store, in any way, gives the same answer.
\<close>

theorem access_shared_whitelist:
  assumes "primary_keys db" and "distinct (map s_share_token (shares db))"
    and "share \<in> set (shares db)" and "s_is_active share"
    and "s_collection_id share = Some (c_id c)" and "c \<in> set (collections db)"
  shows "access_shared_collection (s_share_token share) db =
           (Inr \<lparr>shared_collection =
                   \<lparr>sc_id = c_id c, sc_name = c_name c, sc_description = c_description c,
                    sc_created_at = c_created_at c\<rparr>,
                 shared_records =
                   map (\<lambda>r. \<lparr>sr_id = r_id r, sr_filename = r_filename r,
                              sr_content = r_content r, sr_created_at = r_created_at r\<rparr>)
                     (filter (\<lambda>r. r_collection_id r = Some (c_id c)) (records db))\<rparr>,
            db)
       \<and> (\<forall>f g. fst (access_shared_collection (s_share_token share)
                       (db\<lparr>collections := map (\<lambda>x. x\<lparr>c_user_id := f x\<rparr>) (collections db),
                           records := map (\<lambda>x. x\<lparr>r_user_id := g x\<rparr>) (records db)\<rparr>))
                = fst (access_shared_collection (s_share_token share) db))"
proof
  from assms(1) have d: "distinct (map c_id (collections db))"
    by (simp add: primary_keys_def)
  note s = first_share [OF assms(2,3,4,5)]
  note r = first_referenced [OF d assms(6)]
  show "access_shared_collection (s_share_token share) db =
           (Inr \<lparr>shared_collection =
                   \<lparr>sc_id = c_id c, sc_name = c_name c, sc_description = c_description c,
                    sc_created_at = c_created_at c\<rparr>,
                 shared_records =
                   map (\<lambda>r. \<lparr>sr_id = r_id r, sr_filename = r_filename r,
                              sr_content = r_content r, sr_created_at = r_created_at r\<rparr>)
                     (filter (\<lambda>r. r_collection_id r = Some (c_id c)) (records db))\<rparr>,
            db)"
    using s r assms(5) by (simp add: access_shared_collection_def all_rows_def)
  show "\<forall>f g. fst (access_shared_collection (s_share_token share)
                       (db\<lparr>collections := map (\<lambda>x. x\<lparr>c_user_id := f x\<rparr>) (collections db),
                           records := map (\<lambda>x. x\<lparr>r_user_id := g x\<rparr>) (records db)\<rparr>))
                = fst (access_shared_collection (s_share_token share) db)"
    by (simp add: access_shared_ignores_owners)
qed

theorem access_shared_whitelist_witness:
  "access_shared_collection ''tok-live'' store =
     (Inr \<lparr>shared_collection =
             \<lparr>sc_id = ''c1'', sc_name = ''Work'', sc_description = Some ''tasks'',
              sc_created_at = 1\<rparr>,
           shared_records =
             [\<lparr>sr_id = ''r1'', sr_filename = ''a.txt'', sr_content = ''hi'', sr_created_at = 4\<rparr>,
              \<lparr>sr_id = ''r2'', sr_filename = ''b.txt'', sr_content = ''yo'', sr_created_at = 5\<rparr>]\<rparr>,
      store)
   \<and> fst (access_shared_collection ''tok-live''
            (store\<lparr>collections := map (\<lambda>x. x\<lparr>c_user_id := ''eve''\<rparr>) (collections store),
                   records := map (\<lambda>x. x\<lparr>r_user_id := ''eve''\<rparr>) (records store)\<rparr>))
     = fst (access_shared_collection ''tok-live'' store)"
proof -
  have tok: "distinct (map s_share_token (shares store))" by (simp add: store_defs)
  have sin: "live_share \<in> set (shares store)" by (simp add: store_def)
  have act: "s_is_active live_share" by (simp add: live_share_def)
  have ref: "s_collection_id live_share = Some (c_id work)"
    by (simp add: live_share_def work_def)
  have win: "work \<in> set (collections store)" by (simp add: store_def)
  note t = access_shared_whitelist [OF primary_keys_store tok sin act ref win]
  have 1: "access_shared_collection ''tok-live'' store =
     (Inr \<lparr>shared_collection =
             \<lparr>sc_id = ''c1'', sc_name = ''Work'', sc_description = Some ''tasks'',
              sc_created_at = 1\<rparr>,
           shared_records =
             [\<lparr>sr_id = ''r1'', sr_filename = ''a.txt'', sr_content = ''hi'', sr_created_at = 4\<rparr>,
              \<lparr>sr_id = ''r2'', sr_filename = ''b.txt'', sr_content = ''yo'', sr_created_at = 5\<rparr>]\<rparr>,
      store)"
    using t [THEN conjunct1] by (simp add: store_defs)
  have 2: "fst (access_shared_collection ''tok-live''
            (store\<lparr>collections := map (\<lambda>x. x\<lparr>c_user_id := ''eve''\<rparr>) (collections store),
                   records := map (\<lambda>x. x\<lparr>r_user_id := ''eve''\<rparr>) (records store)\<rparr>))
     = fst (access_shared_collection ''tok-live'' store)"
    using t [THEN conjunct2, rule_format, of "\<lambda>_. ''eve''" "\<lambda>_. ''eve''"]
    by (simp add: live_share_def)
  from 1 2 show ?thesis by blast
qed

section \<open>Linking and unlinking a record\<close>

text \<open>
  C6. Linking raises 404 "Collection not found" when the caller owns no collection with
  the given id, and 404 "Record not found" when the caller owns such a collection but no
  record with the given id. With unique primary keys the latter is the case whenever the
  record with that id belongs to another user. The two exceptions differ in the message
  only; the status is 404 in both, and the store is left as it was.
\<close>

theorem add_record_not_found:
  "((\<forall>c\<in>set (collections db). c_id c = cid \<longrightarrow> c_user_id c \<noteq> u_id u) \<longrightarrow>
      add_record_to_collection cid rid db u =
        (Inl (HTTPException 404 ''Collection not found''), db))
   \<and> ((\<exists>c\<in>set (collections db). c_id c = cid \<and> c_user_id c = u_id u)
        \<and> (\<forall>r\<in>set (records db). r_id r = rid \<longrightarrow> r_user_id r \<noteq> u_id u) \<longrightarrow>
      add_record_to_collection cid rid db u =
        (Inl (HTTPException 404 ''Record not found''), db))
   \<and> (primary_keys db
        \<and> (\<exists>c\<in>set (collections db). c_id c = cid \<and> c_user_id c = u_id u)
        \<and> (\<exists>r\<in>set (records db). r_id r = rid \<and> r_user_id r \<noteq> u_id u) \<longrightarrow>
      add_record_to_collection cid rid db u =
        (Inl (HTTPException 404 ''Record not found''), db))"
proof (intro conjI impI)
  assume "\<forall>c\<in>set (collections db). c_id c = cid \<longrightarrow> c_user_id c \<noteq> u_id u"
  then have "first (\<lambda>c. c_id c = cid \<and> c_user_id c = u_id u) (collections db) = None"
    by (auto simp: first_None_iff)
  then show "add_record_to_collection cid rid db u =
               (Inl (HTTPException 404 ''Collection not found''), db)"
    by (simp add: add_record_to_collection_def)
next
  have missing: "add_record_to_collection cid rid db u =
                   (Inl (HTTPException 404 ''Record not found''), db)"
    if c: "\<exists>c\<in>set (collections db). c_id c = cid \<and> c_user_id c = u_id u"
      and r: "\<forall>r\<in>set (records db). r_id r = rid \<longrightarrow> r_user_id r \<noteq> u_id u"
  proof -
    from c have "first (\<lambda>c. c_id c = cid \<and> c_user_id c = u_id u) (collections db) \<noteq> None"
      by (auto simp: first_None_iff)
    moreover from r have "first (\<lambda>r. r_id r = rid \<and> r_user_id r = u_id u) (records db) = None"
      by (auto simp: first_None_iff)
    ultimately show ?thesis
      by (auto simp: add_record_to_collection_def)
  qed
  {
    assume "(\<exists>c\<in>set (collections db). c_id c = cid \<and> c_user_id c = u_id u)
            \<and> (\<forall>r\<in>set (records db). r_id r = rid \<longrightarrow> r_user_id r \<noteq> u_id u)"
    then show "add_record_to_collection cid rid db u =
                 (Inl (HTTPException 404 ''Record not found''), db)"
      using missing by blast
  }
  {
    assume h: "primary_keys db
               \<and> (\<exists>c\<in>set (collections db). c_id c = cid \<and> c_user_id c = u_id u)
               \<and> (\<exists>r\<in>set (records db). r_id r = rid \<and> r_user_id r \<noteq> u_id u)"
    then have d: "distinct (map r_id (records db))" by (simp add: primary_keys_def)
    from h obtain r where r: "r \<in> set (records db)" "r_id r = rid" "r_user_id r \<noteq> u_id u"
      by blast
    have "\<forall>x\<in>set (records db). r_id x = rid \<longrightarrow> r_user_id x \<noteq> u_id u"
    proof (intro ballI impI)
      fix x assume "x \<in> set (records db)" and "r_id x = rid"
      with d r(1,2) have "x = r" by (auto intro: same_key_same_row)
      with r(3) show "r_user_id x \<noteq> u_id u" by simp
    qed
    with h show "add_record_to_collection cid rid db u =
                   (Inl (HTTPException 404 ''Record not found''), db)"
      using missing by blast
  }
qed

theorem add_record_not_found_witness:
  "add_record_to_collection ''c2'' ''r1'' store alice =
     (Inl (HTTPException 404 ''Collection not found''), store)
   \<and> add_record_to_collection ''c1'' ''r9'' store alice =
     (Inl (HTTPException 404 ''Record not found''), store)
   \<and> add_record_to_collection ''c1'' ''r2'' store alice =
     (Inl (HTTPException 404 ''Record not found''), store)"
proof -
  have 1: "add_record_to_collection ''c2'' ''r1'' store alice =
             (Inl (HTTPException 404 ''Collection not found''), store)"
    using add_record_not_found [of store "''c2''" alice "''r1''", THEN conjunct1]
    by (simp add: store_defs)
  have 2: "add_record_to_collection ''c1'' ''r9'' store alice =
             (Inl (HTTPException 404 ''Record not found''), store)"
    using add_record_not_found [of store "''c1''" alice "''r9''", THEN conjunct2, THEN conjunct1]
    by (simp add: store_defs)
  have 3: "add_record_to_collection ''c1'' ''r2'' store alice =
             (Inl (HTTPException 404 ''Record not found''), store)"
    using add_record_not_found [of store "''c1''" alice "''r2''", THEN conjunct2, THEN conjunct2]
      primary_keys_store
    by (simp add: store_defs)
  from 1 2 3 show ?thesis by blast
qed

lemma first_flush_record:
  "first (\<lambda>r. r_id r = rid \<and> r_user_id r = uid) (flush_record pk v rows) =
     map_option (\<lambda>x. if r_id x = pk then x\<lparr>r_collection_id := v\<rparr> else x)
       (first (\<lambda>r. r_id r = rid \<and> r_user_id r = uid) rows)"
  by (induction rows) (auto simp: first_def flush_record_def)

lemma flush_record_twice: "flush_record pk v (flush_record pk v rows) = flush_record pk v rows"
  by (induction rows) (auto simp: flush_record_def)

text \<open>
  C7. Unlinking succeeds when the caller owns a collection with the given id and a record
  with the given id that refers to that collection; it then clears the membership
  reference of the row with that id and changes nothing else. In every other case it
  raises 404: "Collection not found" when the caller owns no such collection, otherwise
  "Record not found in this collection". With unique primary keys the latter covers a
  record that refers to another collection and a record that refers to none.
\<close>

theorem remove_record_requires_link:
  "((\<exists>c\<in>set (collections db). c_id c = cid \<and> c_user_id c = u_id u)
      \<and> (\<exists>r\<in>set (records db). r_id r = rid \<and> r_user_id r = u_id u
                                 \<and> r_collection_id r = Some cid) \<longrightarrow>
      remove_record_from_collection cid rid db u =
        (Inr \<lparr>message = ''Record removed from collection successfully''\<rparr>,
         db\<lparr>records := map (\<lambda>x. if r_id x = rid then x\<lparr>r_collection_id := None\<rparr> else x)
                          (records db)\<rparr>))
   \<and> ((\<forall>c\<in>set (collections db). c_id c = cid \<longrightarrow> c_user_id c \<noteq> u_id u) \<longrightarrow>
      remove_record_from_collection cid rid db u =
        (Inl (HTTPException 404 ''Collection not found''), db))
   \<and> ((\<exists>c\<in>set (collections db). c_id c = cid \<and> c_user_id c = u_id u)
      \<and> (\<forall>r\<in>set (records db). r_id r = rid \<and> r_user_id r = u_id u \<longrightarrow>
                                 r_collection_id r \<noteq> Some cid) \<longrightarrow>
      remove_record_from_collection cid rid db u =
        (Inl (HTTPException 404 ''Record not found in this collection''), db))
   \<and> (primary_keys db
      \<and> (\<exists>c\<in>set (collections db). c_id c = cid \<and> c_user_id c = u_id u)
      \<and> (\<exists>r\<in>set (records db). r_id r = rid \<and> r_collection_id r \<noteq> Some cid) \<longrightarrow>
      remove_record_from_collection cid rid db u =
        (Inl (HTTPException 404 ''Record not found in this collection''), db))"
proof -
  let ?owned = "\<exists>c\<in>set (collections db). c_id c = cid \<and> c_user_id c = u_id u"
  have coll: "first (\<lambda>c. c_id c = cid \<and> c_user_id c = u_id u) (collections db) \<noteq> None"
    if ?owned
    using that by (auto simp: first_None_iff)
  have ok: "remove_record_from_collection cid rid db u =
        (Inr \<lparr>message = ''Record removed from collection successfully''\<rparr>,
         db\<lparr>records := map (\<lambda>x. if r_id x = rid then x\<lparr>r_collection_id := None\<rparr> else x)
                          (records db)\<rparr>)"
    if c: ?owned
      and r: "\<exists>r\<in>set (records db). r_id r = rid \<and> r_user_id r = u_id u
                                    \<and> r_collection_id r = Some cid"
  proof -
    from r have "first (\<lambda>r. r_id r = rid \<and> r_user_id r = u_id u
                            \<and> r_collection_id r = Some cid) (records db) \<noteq> None"
      by (auto simp: first_None_iff)
    then obtain r0 where
      f: "first (\<lambda>r. r_id r = rid \<and> r_user_id r = u_id u
                      \<and> r_collection_id r = Some cid) (records db) = Some r0"
      by blast
    then have "r_id r0 = rid" by (auto dest: first_SomeD)
    with f coll [OF c] show ?thesis
      by (auto simp: remove_record_from_collection_def flush_record_def)
  qed
  have nocoll: "remove_record_from_collection cid rid db u =
                  (Inl (HTTPException 404 ''Collection not found''), db)"
    if "\<forall>c\<in>set (collections db). c_id c = cid \<longrightarrow> c_user_id c \<noteq> u_id u"
  proof -
    from that have "first (\<lambda>c. c_id c = cid \<and> c_user_id c = u_id u) (collections db) = None"
      by (auto simp: first_None_iff)
    then show ?thesis by (simp add: remove_record_from_collection_def)
  qed
  have norec: "remove_record_from_collection cid rid db u =
                 (Inl (HTTPException 404 ''Record not found in this collection''), db)"
    if c: ?owned
      and r: "\<forall>r\<in>set (records db). r_id r = rid \<and> r_user_id r = u_id u \<longrightarrow>
                                    r_collection_id r \<noteq> Some cid"
  proof -
    from r have "first (\<lambda>r. r_id r = rid \<and> r_user_id r = u_id u
                            \<and> r_collection_id r = Some cid) (records db) = None"
      by (auto simp: first_None_iff)
    with coll [OF c] show ?thesis
      by (auto simp: remove_record_from_collection_def)
  qed
  have elsewhere: "remove_record_from_collection cid rid db u =
                     (Inl (HTTPException 404 ''Record not found in this collection''), db)"
    if pk: "primary_keys db" and c: ?owned
      and r: "\<exists>r\<in>set (records db). r_id r = rid \<and> r_collection_id r \<noteq> Some cid"
  proof -
    from pk have d: "distinct (map r_id (records db))" by (simp add: primary_keys_def)
    from r obtain r0 where r0: "r0 \<in> set (records db)" "r_id r0 = rid"
      "r_collection_id r0 \<noteq> Some cid"
      by blast
    have "\<forall>x\<in>set (records db). r_id x = rid \<and> r_user_id x = u_id u \<longrightarrow>
                                 r_collection_id x \<noteq> Some cid"
    proof (intro ballI impI)
      fix x assume "x \<in> set (records db)" and "r_id x = rid \<and> r_user_id x = u_id u"
      with d r0(1,2) have "x = r0" by (auto intro: same_key_same_row)
      with r0(3) show "r_collection_id x \<noteq> Some cid" by simp
    qed
    with c show ?thesis by (rule norec)
  qed
  from ok nocoll norec elsewhere show ?thesis by blast
qed

theorem remove_record_requires_link_witness:
  "remove_record_from_collection ''c1'' ''r1'' store alice =
     (Inr \<lparr>message = ''Record removed from collection successfully''\<rparr>,
      store\<lparr>records := [a_txt\<lparr>r_collection_id := None\<rparr>, b_txt, c_txt, d_txt]\<rparr>)
   \<and> remove_record_from_collection ''c2'' ''r1'' store alice =
     (Inl (HTTPException 404 ''Collection not found''), store)
   \<and> remove_record_from_collection ''c1'' ''r2'' store alice =
     (Inl (HTTPException 404 ''Record not found in this collection''), store)
   \<and> remove_record_from_collection ''c1'' ''r4'' store alice =
     (Inl (HTTPException 404 ''Record not found in this collection''), store)
   \<and> remove_record_from_collection ''c1'' ''r3'' store alice =
     (Inl (HTTPException 404 ''Record not found in this collection''), store)"
proof -
  have 1: "remove_record_from_collection ''c1'' ''r1'' store alice =
     (Inr \<lparr>message = ''Record removed from collection successfully''\<rparr>,
      store\<lparr>records := [a_txt\<lparr>r_collection_id := None\<rparr>, b_txt, c_txt, d_txt]\<rparr>)"
    using remove_record_requires_link [of store "''c1''" alice "''r1''", THEN conjunct1]
    by (simp add: store_defs)
  have 2: "remove_record_from_collection ''c2'' ''r1'' store alice =
     (Inl (HTTPException 404 ''Collection not found''), store)"
    using remove_record_requires_link [of store "''c2''" alice "''r1''",
        THEN conjunct2, THEN conjunct1]
    by (simp add: store_defs)
  have 3: "remove_record_from_collection ''c1'' ''r2'' store alice =
     (Inl (HTTPException 404 ''Record not found in this collection''), store)"
    using remove_record_requires_link [of store "''c1''" alice "''r2''",
        THEN conjunct2, THEN conjunct2, THEN conjunct1]
    by (simp add: store_defs)
  have 4: "remove_record_from_collection ''c1'' ''r4'' store alice =
     (Inl (HTTPException 404 ''Record not found in this collection''), store)"
    using remove_record_requires_link [of store "''c1''" alice "''r4''",
        THEN conjunct2, THEN conjunct2, THEN conjunct2] primary_keys_store
    by (simp add: store_defs)
  have 5: "remove_record_from_collection ''c1'' ''r3'' store alice =
     (Inl (HTTPException 404 ''Record not found in this collection''), store)"
    using remove_record_requires_link [of store "''c1''" alice "''r3''",
        THEN conjunct2, THEN conjunct2, THEN conjunct2] primary_keys_store
    by (simp add: store_defs)
  from 1 2 3 4 5 show ?thesis by blast
qed

text \<open>
  C8. Linking is idempotent. With unique primary keys, linking a record of the caller
  that already refers to the given collection of the caller succeeds and returns the
  store as it was. In any store, linking a second time gives the result and the store
  of the first time.
\<close>

theorem add_record_idempotent:
  "(primary_keys db \<and> c \<in> set (collections db) \<and> r \<in> set (records db)
      \<and> c_user_id c = u_id u \<and> r_user_id r = u_id u
      \<and> r_collection_id r = Some (c_id c) \<longrightarrow>
      add_record_to_collection (c_id c) (r_id r) db u =
        (Inr \<lparr>message = ''Record added to collection successfully''\<rparr>, db))
   \<and> add_record_to_collection cid rid (snd (add_record_to_collection cid rid db u)) u =
       add_record_to_collection cid rid db u"
proof
  show "primary_keys db \<and> c \<in> set (collections db) \<and> r \<in> set (records db)
      \<and> c_user_id c = u_id u \<and> r_user_id r = u_id u
      \<and> r_collection_id r = Some (c_id c) \<longrightarrow>
      add_record_to_collection (c_id c) (r_id r) db u =
        (Inr \<lparr>message = ''Record added to collection successfully''\<rparr>, db)"
  proof
    assume h: "primary_keys db \<and> c \<in> set (collections db) \<and> r \<in> set (records db)
      \<and> c_user_id c = u_id u \<and> r_user_id r = u_id u
      \<and> r_collection_id r = Some (c_id c)"
    then have dc: "distinct (map c_id (collections db))"
      and dr: "distinct (map r_id (records db))"
      by (simp_all add: primary_keys_def)
    from h have rin: "r \<in> set (records db)" by simp
    have fc: "first (\<lambda>x. c_id x = c_id c \<and> c_user_id x = u_id u) (collections db) = Some c"
      using first_owned [OF dc, of c] h by simp
    have fr: "first (\<lambda>x. r_id x = r_id r \<and> r_user_id x = u_id u) (records db) = Some r"
      by (rule first_by_key [where k = r_id, OF dr rin]) (use h in auto)
    have "flush_record (r_id r) (Some (c_id c)) (records db) = records db"
      unfolding flush_record_def
    proof (rule map_idI)
      fix x assume "x \<in> set (records db)"
      show "(if r_id x = r_id r then x\<lparr>r_collection_id := Some (c_id c)\<rparr> else x) = x"
      proof (cases "r_id x = r_id r")
        case True
        with dr rin \<open>x \<in> set (records db)\<close> have "x = r" by (auto intro: same_key_same_row)
        with h show ?thesis by simp
      next
        case False
        then show ?thesis by simp
      qed
    qed
    with fc fr show "add_record_to_collection (c_id c) (r_id r) db u =
        (Inr \<lparr>message = ''Record added to collection successfully''\<rparr>, db)"
      by (simp add: add_record_to_collection_def)
  qed
  show "add_record_to_collection cid rid (snd (add_record_to_collection cid rid db u)) u =
       add_record_to_collection cid rid db u"
  proof (cases "first (\<lambda>c. c_id c = cid \<and> c_user_id c = u_id u) (collections db)")
    case None
    then show ?thesis by (simp add: add_record_to_collection_def)
  next
    case c: (Some c0)
    show ?thesis
    proof (cases "first (\<lambda>r. r_id r = rid \<and> r_user_id r = u_id u) (records db)")
      case None
      with c show ?thesis by (simp add: add_record_to_collection_def)
    next
      case (Some r0)
      then have k: "r_id r0 = rid" by (auto dest: first_SomeD)
      from c Some k show ?thesis
        by (simp add: add_record_to_collection_def first_flush_record flush_record_twice)
    qed
  qed
qed

theorem add_record_idempotent_witness:
  "add_record_to_collection ''c1'' ''r1'' store alice =
     (Inr \<lparr>message = ''Record added to collection successfully''\<rparr>, store)
   \<and> add_record_to_collection ''c1'' ''r3''
       (snd (add_record_to_collection ''c1'' ''r3'' store alice)) alice =
     add_record_to_collection ''c1'' ''r3'' store alice
   \<and> add_record_to_collection ''c1'' ''r3'' store alice =
     (Inr \<lparr>message = ''Record added to collection successfully''\<rparr>,
      store\<lparr>records := [a_txt, b_txt, c_txt\<lparr>r_collection_id := Some ''c1''\<rparr>, d_txt]\<rparr>)"
proof -
  have 1: "add_record_to_collection ''c1'' ''r1'' store alice =
     (Inr \<lparr>message = ''Record added to collection successfully''\<rparr>, store)"
    using add_record_idempotent [of store work a_txt alice, THEN conjunct1] primary_keys_store
    by (simp add: store_defs)
  have 2: "add_record_to_collection ''c1'' ''r3''
       (snd (add_record_to_collection ''c1'' ''r3'' store alice)) alice =
     add_record_to_collection ''c1'' ''r3'' store alice"
    using add_record_idempotent [THEN conjunct2] .
  have 3: "add_record_to_collection ''c1'' ''r3'' store alice =
     (Inr \<lparr>message = ''Record added to collection successfully''\<rparr>,
      store\<lparr>records := [a_txt, b_txt, c_txt\<lparr>r_collection_id := Some ''c1''\<rparr>, d_txt]\<rparr>)"
    by (simp add: add_record_to_collection_def first_def flush_record_def store_defs)
  from 1 2 3 show ?thesis by blast
qed

section \<open>Failure and the store\<close>

text \<open>
  C9. Whenever a handler raises an \<open>HTTPException\<close>, its status is 404 and the store is
  the one the handler was called on: every lookup that can raise comes before the first
  write. The two handlers without such a lookup, create and list-all, never raise an
  \<open>HTTPException\<close>.
\<close>

theorem not_found_leaves_store_unchanged:
  "fst (create_collection new_id now cc db u) \<noteq> Inl (HTTPException s d)
   \<and> fst (get_all_collections db u) \<noteq> Inl (HTTPException s d)
   \<and> (fst (get_collection cid db u) = Inl (HTTPException s d) \<longrightarrow>
        s = 404 \<and> snd (get_collection cid db u) = db)
   \<and> (fst (update_collection cid cc db u) = Inl (HTTPException s d) \<longrightarrow>
        s = 404 \<and> snd (update_collection cid cc db u) = db)
   \<and> (fst (update_collection_partial cid cu db u) = Inl (HTTPException s d) \<longrightarrow>
        s = 404 \<and> snd (update_collection_partial cid cu db u) = db)
   \<and> (fst (get_records_from_collection cid db u) = Inl (HTTPException s d) \<longrightarrow>
        s = 404 \<and> snd (get_records_from_collection cid db u) = db)
   \<and> (fst (add_record_to_collection cid rid db u) = Inl (HTTPException s d) \<longrightarrow>
        s = 404 \<and> snd (add_record_to_collection cid rid db u) = db)
   \<and> (fst (remove_record_from_collection cid rid db u) = Inl (HTTPException s d) \<longrightarrow>
        s = 404 \<and> snd (remove_record_from_collection cid rid db u) = db)
   \<and> (fst (delete_collection cid db u) = Inl (HTTPException s d) \<longrightarrow>
        s = 404 \<and> snd (delete_collection cid db u) = db)
   \<and> (fst (access_shared_collection t db) = Inl (HTTPException s d) \<longrightarrow>
        s = 404 \<and> snd (access_shared_collection t db) = db)"
proof (intro conjI)
  show "fst (create_collection new_id now cc db u) \<noteq> Inl (HTTPException s d)"
    by (simp add: create_collection_def refresh_def Let_def split: option.splits)
  show "fst (get_all_collections db u) \<noteq> Inl (HTTPException s d)"
    by (simp add: get_all_collections_def)
  show "fst (get_collection cid db u) = Inl (HTTPException s d) \<longrightarrow>
        s = 404 \<and> snd (get_collection cid db u) = db"
    by (simp add: get_collection_def split: option.splits)
  show "fst (update_collection cid cc db u) = Inl (HTTPException s d) \<longrightarrow>
        s = 404 \<and> snd (update_collection cid cc db u) = db"
    by (simp add: update_collection_def refresh_def Let_def split: option.splits)
  show "fst (update_collection_partial cid cu db u) = Inl (HTTPException s d) \<longrightarrow>
        s = 404 \<and> snd (update_collection_partial cid cu db u) = db"
    by (simp add: update_collection_partial_def refresh_def Let_def split: option.splits)
  show "fst (get_records_from_collection cid db u) = Inl (HTTPException s d) \<longrightarrow>
        s = 404 \<and> snd (get_records_from_collection cid db u) = db"
    by (simp add: get_records_from_collection_def split: option.splits)
  show "fst (add_record_to_collection cid rid db u) = Inl (HTTPException s d) \<longrightarrow>
        s = 404 \<and> snd (add_record_to_collection cid rid db u) = db"
    by (simp add: add_record_to_collection_def split: option.splits)
  show "fst (remove_record_from_collection cid rid db u) = Inl (HTTPException s d) \<longrightarrow>
        s = 404 \<and> snd (remove_record_from_collection cid rid db u) = db"
    by (simp add: remove_record_from_collection_def split: option.splits)
  show "fst (delete_collection cid db u) = Inl (HTTPException s d) \<longrightarrow>
        s = 404 \<and> snd (delete_collection cid db u) = db"
    by (simp add: delete_collection_def split: option.splits)
  show "fst (access_shared_collection t db) = Inl (HTTPException s d) \<longrightarrow>
        s = 404 \<and> snd (access_shared_collection t db) = db"
    by (simp add: access_shared_collection_def split: option.splits)
qed

theorem not_found_leaves_store_unchanged_witness:
  "(fst (get_collection ''c2'' store alice) = Inl (HTTPException 404 ''Collection not found'')
      \<and> snd (get_collection ''c2'' store alice) = store)
   \<and> (fst (update_collection ''c2'' \<lparr>cc_name = ''x'', cc_description = None\<rparr> store alice)
        = Inl (HTTPException 404 ''Collection not found'')
      \<and> snd (update_collection ''c2'' \<lparr>cc_name = ''x'', cc_description = None\<rparr> store alice)
        = store)
   \<and> (fst (update_collection_partial ''c2'' \<lparr>cu_name = Some ''x'', cu_description = None\<rparr>
             store alice)
        = Inl (HTTPException 404 ''Collection not found'')
      \<and> snd (update_collection_partial ''c2'' \<lparr>cu_name = Some ''x'', cu_description = None\<rparr>
             store alice)
        = store)
   \<and> (fst (get_records_from_collection ''c2'' store alice)
        = Inl (HTTPException 404 ''Collection not found'')
      \<and> snd (get_records_from_collection ''c2'' store alice) = store)
   \<and> (fst (add_record_to_collection ''c1'' ''r2'' store alice)
        = Inl (HTTPException 404 ''Record not found'')
      \<and> snd (add_record_to_collection ''c1'' ''r2'' store alice) = store)
   \<and> (fst (remove_record_from_collection ''c1'' ''r4'' store alice)
        = Inl (HTTPException 404 ''Record not found in this collection'')
      \<and> snd (remove_record_from_collection ''c1'' ''r4'' store alice) = store)
   \<and> (fst (delete_collection ''c2'' store alice)
        = Inl (HTTPException 404 ''Collection not found'')
      \<and> snd (delete_collection ''c2'' store alice) = store)
   \<and> (fst (access_shared_collection ''tok-revoked'' store)
        = Inl (HTTPException 404 ''Invalid or expired share link'')
      \<and> snd (access_shared_collection ''tok-revoked'' store) = store)"
proof -
  let ?cc = "\<lparr>cc_name = ''x'', cc_description = None\<rparr>"
  let ?cu = "\<lparr>cu_name = Some ''x'', cu_description = None\<rparr>"
  have g: "fst (get_collection ''c2'' store alice)
             = Inl (HTTPException 404 ''Collection not found'')"
    by (simp add: get_collection_def first_def store_defs)
  have p: "fst (update_collection ''c2'' ?cc store alice)
             = Inl (HTTPException 404 ''Collection not found'')"
    by (simp add: update_collection_def first_def store_defs)
  have pp: "fst (update_collection_partial ''c2'' ?cu store alice)
             = Inl (HTTPException 404 ''Collection not found'')"
    by (simp add: update_collection_partial_def first_def store_defs)
  have l: "fst (get_records_from_collection ''c2'' store alice)
             = Inl (HTTPException 404 ''Collection not found'')"
    by (simp add: get_records_from_collection_def first_def store_defs)
  have a: "fst (add_record_to_collection ''c1'' ''r2'' store alice)
             = Inl (HTTPException 404 ''Record not found'')"
    by (simp add: add_record_to_collection_def first_def store_defs)
  have r: "fst (remove_record_from_collection ''c1'' ''r4'' store alice)
             = Inl (HTTPException 404 ''Record not found in this collection'')"
    by (simp add: remove_record_from_collection_def first_def store_defs)
  have dl: "fst (delete_collection ''c2'' store alice)
             = Inl (HTTPException 404 ''Collection not found'')"
    by (simp add: delete_collection_def first_def store_defs)
  have s: "fst (access_shared_collection ''tok-revoked'' store)
             = Inl (HTTPException 404 ''Invalid or expired share link'')"
    by (simp add: access_shared_collection_def first_def store_defs)
  note t1 = not_found_leaves_store_unchanged
    [where db = store and u = alice and cid = "''c2''" and cc = ?cc and cu = ?cu
       and s = 404 and d = "''Collection not found''"]
  note t2 = not_found_leaves_store_unchanged
    [where db = store and u = alice and cid = "''c1''" and rid = "''r2''"
       and s = 404 and d = "''Record not found''"]
  note t3 = not_found_leaves_store_unchanged
    [where db = store and u = alice and cid = "''c1''" and rid = "''r4''"
       and s = 404 and d = "''Record not found in this collection''"]
  note t4 = not_found_leaves_store_unchanged
    [where db = store and t = "''tok-revoked''"
       and s = 404 and d = "''Invalid or expired share link''"]
  from t1 g have g': "snd (get_collection ''c2'' store alice) = store" by blast
  from t1 p have p': "snd (update_collection ''c2'' ?cc store alice) = store" by blast
  from t1 pp have pp': "snd (update_collection_partial ''c2'' ?cu store alice) = store" by blast
  from t1 l have l': "snd (get_records_from_collection ''c2'' store alice) = store" by blast
  from t2 a have a': "snd (add_record_to_collection ''c1'' ''r2'' store alice) = store" by blast
  from t3 r have r': "snd (remove_record_from_collection ''c1'' ''r4'' store alice) = store"
    by blast
  from t1 dl have dl': "snd (delete_collection ''c2'' store alice) = store" by blast
  from t4 s have s': "snd (access_shared_collection ''tok-revoked'' store) = store" by blast
  from g g' p p' pp pp' l l' a a' r r' dl dl' s s' show ?thesis by blast
qed

section \<open>Which records a collection query selects\<close>



end
